theory Spec2Isabelle
  imports Complex_Main "HOL-Library.Char_ord" "HOL-Library.List_Lexorder" "HOL-Library.Sublist"
begin

section \<open>Calendar values\<close>

text \<open>
  The tools of \<^verbatim>\<open>backend/agent.py\<close> work on values of Python's \<^verbatim>\<open>datetime\<close> module.
  A \<^verbatim>\<open>date\<close> is a year, a month and a day; a (naive) \<^verbatim>\<open>datetime\<close> adds a time of day.
  Python integers are unbounded, so every component is an \<^typ>\<open>int\<close>.
\<close>

record date =
  year :: int
  month :: int
  day :: int

record datetime =
  dt_date :: date
  hour :: int
  minute :: int
  second :: int
  microsecond :: int

text \<open>Leap years and month lengths, as \<^verbatim>\<open>datetime\<close> computes them.\<close>

definition is_leap :: "int \<Rightarrow> bool" where
  "is_leap y = (y mod 4 = 0 \<and> (y mod 100 \<noteq> 0 \<or> y mod 400 = 0))"

definition days_in_month :: "int \<Rightarrow> int \<Rightarrow> int" where
  "days_in_month y m =
     (if m = 2 \<and> is_leap y then 29
      else [31, 28, 31, 30, 31, 30, 31, 31, 30, 31, 30, 31] ! nat (m - 1))"

definition days_before_year :: "int \<Rightarrow> int" where
  "days_before_year y = (y - 1) * 365 + (y - 1) div 4 - (y - 1) div 100 + (y - 1) div 400"

definition days_before_month :: "int \<Rightarrow> int \<Rightarrow> int" where
  "days_before_month y m =
     [0, 31, 59, 90, 120, 151, 181, 212, 243, 273, 304, 334] ! nat (m - 1)
       + (if m > 2 \<and> is_leap y then 1 else 0)"

definition toordinal :: "date \<Rightarrow> int" where
  "toordinal d = days_before_year (year d) + days_before_month (year d) (month d) + day d"

text \<open>
  The constructors of \<^verbatim>\<open>datetime\<close> raise \<^verbatim>\<open>ValueError\<close> outside these ranges; the month is
  tested first, so that the table of month lengths is only read inside its bounds.
\<close>

definition valid_date :: "date \<Rightarrow> bool" where
  "valid_date d =
     (if 1 \<le> year d \<and> year d \<le> 9999 \<and> 1 \<le> month d \<and> month d \<le> 12
      then 1 \<le> day d \<and> day d \<le> days_in_month (year d) (month d)
      else False)"

definition valid_datetime :: "datetime \<Rightarrow> bool" where
  "valid_datetime t =
     (valid_date (dt_date t) \<and> 0 \<le> hour t \<and> hour t \<le> 23 \<and> 0 \<le> minute t \<and> minute t \<le> 59
        \<and> 0 \<le> second t \<and> second t \<le> 59 \<and> 0 \<le> microsecond t \<and> microsecond t \<le> 999999)"

text \<open>Python compares dates and datetimes field by field, the year first.\<close>

definition date_lt :: "date \<Rightarrow> date \<Rightarrow> bool" where
  "date_lt a b =
     (year a < year b \<or> (year a = year b \<and>
        (month a < month b \<or> (month a = month b \<and> day a < day b))))"

definition date_le :: "date \<Rightarrow> date \<Rightarrow> bool" where
  "date_le a b = (date_lt a b \<or> a = b)"

definition time_lt :: "datetime \<Rightarrow> datetime \<Rightarrow> bool" where
  "time_lt a b =
     (hour a < hour b \<or> (hour a = hour b \<and>
        (minute a < minute b \<or> (minute a = minute b \<and>
           (second a < second b \<or> (second a = second b \<and> microsecond a < microsecond b))))))"

definition datetime_lt :: "datetime \<Rightarrow> datetime \<Rightarrow> bool" where
  "datetime_lt a b = (date_lt (dt_date a) (dt_date b) \<or> (dt_date a = dt_date b \<and> time_lt a b))"

definition datetime_le :: "datetime \<Rightarrow> datetime \<Rightarrow> bool" where
  "datetime_le a b = (datetime_lt a b \<or> a = b)"

text \<open>
  \<^verbatim>\<open>(check_out - check_in).days\<close>: the difference of two datetimes is a \<^verbatim>\<open>timedelta\<close>,
  normalised so that its seconds and microseconds are non-negative; its \<^verbatim>\<open>days\<close> is the
  floor of the elapsed time in days.
\<close>

definition seconds_of_day :: "datetime \<Rightarrow> int" where
  "seconds_of_day t = second t + minute t * 60 + hour t * 3600"

definition timedelta_days :: "datetime \<Rightarrow> datetime \<Rightarrow> int" where
  "timedelta_days a b =
     ((toordinal (dt_date a) - toordinal (dt_date b)) * 86400000000
        + (seconds_of_day a - seconds_of_day b) * 1000000
        + (microsecond a - microsecond b)) div 86400000000"

section \<open>Reading a date string\<close>

text \<open>
  \<^verbatim>\<open>parse_date\<close> hands the string to \<^verbatim>\<open>dateutil.parser.parse\<close>, a library outside the
  repository. The library works in two stages. It first reads from the string the fields
  the string names (its \<^verbatim>\<open>_result\<close>); a field the string does not name stays \<^verbatim>\<open>None\<close>.
  It then builds the datetime by replacing, in a default datetime (today at midnight,
  as \<^verbatim>\<open>parse_date\<close> passes no default), the fields that were read.

  The first stage is a parameter of the model, a \<open>lexer\<close>: \<open>None\<close> stands for the
  \<^verbatim>\<open>ValueError\<close> the library raises on a string that holds no date. The second stage is
  \<open>build_naive\<close> below. Strings that name a weekday or a time zone are outside the model.
\<close>

record timefields =
  res_year :: "int option"
  res_month :: "int option"
  res_day :: "int option"
  res_hour :: "int option"
  res_minute :: "int option"
  res_second :: "int option"
  res_microsecond :: "int option"

type_synonym lexer = "string \<Rightarrow> timefields option"

definition or_default :: "'a option \<Rightarrow> 'a \<Rightarrow> 'a" where
  "or_default v d = (case v of None \<Rightarrow> d | Some x \<Rightarrow> x)"

text \<open>
  When the string names no day and the default's day is past the end of the month, the
  library falls back to the month's last day. An out-of-range field makes
  \<^verbatim>\<open>datetime.replace\<close> raise \<^verbatim>\<open>ValueError\<close>, here \<open>None\<close>.
\<close>

definition build_naive :: "timefields \<Rightarrow> datetime \<Rightarrow> datetime option" where
  "build_naive res dflt =
     (let cyear = or_default (res_year res) (year (dt_date dflt));
          cmonth = or_default (res_month res) (month (dt_date dflt));
          cday = or_default (res_day res) (day (dt_date dflt));
          rday = (if res_day res = None \<and> 1 \<le> cmonth \<and> cmonth \<le> 12
                       \<and> cday > days_in_month cyear cmonth
                  then days_in_month cyear cmonth else cday);
          naive = \<lparr> dt_date = \<lparr> year = cyear, month = cmonth, day = rday \<rparr>,
                    hour = or_default (res_hour res) (hour dflt),
                    minute = or_default (res_minute res) (minute dflt),
                    second = or_default (res_second res) (second dflt),
                    microsecond = or_default (res_microsecond res) (microsecond dflt) \<rparr>
      in if valid_datetime naive then Some naive else None)"

definition midnight :: "datetime \<Rightarrow> datetime" where
  "midnight t = t \<lparr> hour := 0, minute := 0, second := 0, microsecond := 0 \<rparr>"

definition date_parser_parse :: "lexer \<Rightarrow> datetime \<Rightarrow> string \<Rightarrow> datetime option" where
  "date_parser_parse fields_of now date_str =
     (case fields_of date_str of
        None \<Rightarrow> None
      | Some res \<Rightarrow> build_naive res (midnight now))"

text \<open>\<^verbatim>\<open>parsed.replace(year=y)\<close>, with its \<^verbatim>\<open>ValueError\<close> as \<open>None\<close>.\<close>

definition replace_year :: "datetime \<Rightarrow> int \<Rightarrow> datetime option" where
  "replace_year t y =
     (let t' = t \<lparr> dt_date := (dt_date t) \<lparr> year := y \<rparr> \<rparr>
      in if valid_datetime t' then Some t' else None)"

text \<open>
  \<^verbatim>\<open>parse_date\<close> (agent.py, lines 56 to 65). The clock is the parameter \<open>now\<close>:
  \<^verbatim>\<open>datetime.now()\<close>, whose date is \<^verbatim>\<open>date.today()\<close>. The \<^verbatim>\<open>except ValueError\<close> covers both
  the library call and the \<^verbatim>\<open>replace\<close>.
\<close>

definition parse_date :: "lexer \<Rightarrow> datetime \<Rightarrow> string \<Rightarrow> datetime option" where
  "parse_date fields_of now date_str =
     (case date_parser_parse fields_of now date_str of
        None \<Rightarrow> None
      | Some parsed \<Rightarrow>
          (let current_year = year (dt_date now)
           in if year (dt_date parsed) < current_year
              then replace_year parsed
                     (if date_le (dt_date now) (dt_date parsed)
                      then current_year else current_year + 1)
              else Some parsed))"

section \<open>The store and the session memory\<close>

text \<open>
  Modelled from the spec: the declarations of the four tables are not in the repository
  (the code only queries them). The spec's persisted state layout gives their columns;
  the columns the tools never read (the key of a booking) are left out. A table is the
  list of its rows in the order the store yields them to a query with no \<^verbatim>\<open>ORDER BY\<close>.
  Columns carry values, as the spec's data model has them (no \<^verbatim>\<open>NULL\<close> room number,
  date or rate); \<open>booking_source\<close> is optional. Where two tables have a column of the
  same name, the later record's field takes a prefix: \<open>rt_\<close> for
  \<^verbatim>\<open>dh_roomtypes\<close>, \<open>bk_\<close> for \<^verbatim>\<open>dh_bookings\<close>, \<open>tk_\<close> for \<^verbatim>\<open>dh_tickets\<close>.
\<close>

record room =
  room_number :: string
  room_type :: string
  status :: string

record roomtype =
  rt_room_type :: string
  rate_per_night :: rat

record booking =
  guest_name :: string
  bk_room_number :: string
  check_in_date :: date
  check_out_date :: date
  total_amount :: rat
  booking_date :: datetime
  booking_source :: "string option"

record ticket =
  tk_id :: int
  tk_room_number :: string
  request_description :: string
  tk_status :: string
  assigned_to_department :: string
  created_at :: datetime

text \<open>
  \<open>dh_tickets_id_seq\<close> is the next value of the generated ticket key
  (\<^verbatim>\<open>RETURNING id\<close>; the spec's monotonic surrogate key).
\<close>

record store =
  dh_rooms :: "room list"
  dh_roomtypes :: "roomtype list"
  dh_bookings :: "booking list"
  dh_tickets :: "ticket list"
  dh_tickets_id_seq :: int

text \<open>
  The session memory is a \<^verbatim>\<open>MemorySaver\<close> of the library \<^verbatim>\<open>langgraph\<close>, outside the
  repository. \<^verbatim>\<open>memory.get\<close> returns the checkpoint of a thread, a dictionary, or \<^verbatim>\<open>None\<close>.
  The only key of a checkpoint that the code reads is \<^verbatim>\<open>'user_config'\<close>, a dictionary of
  its own, so a checkpoint is that dictionary, \<open>None\<close> when the key is absent (an empty
  checkpoint has no such key). The checkpoints the library writes for the agent hold no
  such key.
\<close>

type_synonym user_config = "string \<rightharpoonup> string"
type_synonym checkpoint = "user_config option"
type_synonym memory = "string \<rightharpoonup> checkpoint"

section \<open>Responses\<close>

text \<open>
  Every tool returns one sentence of text. A response is modelled by the sentence's
  kind and the values printed in it, not by its characters: \<open>Missing_param p\<close> is
  \<^verbatim>\<open>missing_param_response(p)\<close>, the other constructors are named after their sentence.
\<close>

datatype py_error = ZeroDivisionError | AttributeError

datatype response =
    Missing_param string
  | Invalid_date_format
  | Check_in_in_the_past datetime
  | Check_out_must_be_after_check_in
  | No_rooms_available datetime datetime
  | Available_rooms datetime datetime "(string \<times> string) list"
  | No_room_found string
  | No_rate_found string
  | Room_booked string string datetime datetime rat
  | Error_booking_room string py_error
  | Ticket_raised int string string
  | No_ticket_found int
  | Ticket_closed int
  | No_rooms_registered
  | Occupancy_rate datetime rat
  | Error_calculating_occupancy datetime py_error

text \<open>Python's truth value of an optional string and of an optional integer.\<close>

definition truthy :: "string option \<Rightarrow> bool" where
  "truthy v = (case v of None \<Rightarrow> False | Some x \<Rightarrow> x \<noteq> [])"

definition truthy_int :: "int option \<Rightarrow> bool" where
  "truthy_int v = (case v of None \<Rightarrow> False | Some i \<Rightarrow> i \<noteq> 0)"

section \<open>The tools\<close>

text \<open>
  The connection to the store is taken as open and every statement as succeeding, so
  the \<^verbatim>\<open>except\<close> branches that report a failure of the store are not modelled. Two
  Python exceptions that a tool could raise on well-formed rows are branches of the
  model: the division in \<^verbatim>\<open>get_occupancy_rate\<close> and the call of \<^verbatim>\<open>memory.save\<close> in
  \<^verbatim>\<open>book_room\<close>.
\<close>

subsection \<open>check_room_availability\<close>

text \<open>
  The inner query: the room numbers of the bookings with
  \<^verbatim>\<open>check_in_date <= check_out AND check_out_date >= check_in\<close>; its two parameters are
  the requested check-out and check-in days, in that order.
\<close>

definition booked_room_numbers :: "store \<Rightarrow> date \<Rightarrow> date \<Rightarrow> string list" where
  "booked_room_numbers s check_out check_in =
     map bk_room_number
       (filter (\<lambda>b. date_le (check_in_date b) check_out \<and> date_le check_in (check_out_date b))
          (dh_bookings s))"

text \<open>The outer query: \<^verbatim>\<open>room_number NOT IN (...)\<close> over \<^verbatim>\<open>dh_rooms\<close>, with no \<^verbatim>\<open>ORDER BY\<close>.\<close>

definition select_available :: "store \<Rightarrow> date \<Rightarrow> date \<Rightarrow> (string \<times> string) list" where
  "select_available s check_out check_in =
     map (\<lambda>r. (room_number r, room_type r))
       (filter (\<lambda>r. room_number r \<notin> set (booked_room_numbers s check_out check_in))
          (dh_rooms s))"

definition check_room_availability ::
  "lexer \<Rightarrow> datetime \<Rightarrow> string option \<Rightarrow> string option \<Rightarrow> store \<Rightarrow> response" where
  "check_room_availability fields_of now check_in_str check_out_str s =
     (if \<not> truthy check_in_str then Missing_param ''check_in_date''
      else if \<not> truthy check_out_str then Missing_param ''check_out_date''
      else
        (case (parse_date fields_of now (or_default check_in_str []),
               parse_date fields_of now (or_default check_out_str [])) of
           (Some check_in, Some check_out) \<Rightarrow>
             if date_lt (dt_date check_in) (dt_date now) then Check_in_in_the_past check_in
             else if datetime_le check_out check_in then Check_out_must_be_after_check_in
             else
               (let rooms = select_available s (dt_date check_out) (dt_date check_in)
                in if rooms = [] then No_rooms_available check_in check_out
                   else Available_rooms check_in check_out rooms)
         | _ \<Rightarrow> Invalid_date_format))"

subsection \<open>book_room\<close>

text \<open>
  Lines 131 to 134: with no guest name but a session id, the name stored for the thread
  under \<^verbatim>\<open>'customer_name'\<close>, when there is one, becomes the guest name.
\<close>

definition stored_guest_name :: "memory \<Rightarrow> string \<Rightarrow> string option" where
  "stored_guest_name mem session_id =
     (case mem session_id of
        Some (Some user_config) \<Rightarrow> user_config ''customer_name''
      | _ \<Rightarrow> None)"

definition effective_guest_name ::
  "string option \<Rightarrow> string option \<Rightarrow> memory \<Rightarrow> string option" where
  "effective_guest_name guest session mem =
     (if \<not> truthy guest \<and> truthy session
      then (case stored_guest_name mem (or_default session []) of
              Some n \<Rightarrow> Some n
            | None \<Rightarrow> guest)
      else guest)"

text \<open>
  \<^verbatim>\<open>memory.save(config, checkpoint)\<close>: a \<^verbatim>\<open>MemorySaver\<close> has no method \<^verbatim>\<open>save\<close> (it
  writes with \<^verbatim>\<open>put\<close>), so the call raises \<^verbatim>\<open>AttributeError\<close> and writes nothing.
\<close>

definition memory_save :: "memory \<Rightarrow> string \<Rightarrow> checkpoint \<Rightarrow> py_error + memory" where
  "memory_save mem session_id cp = Inl AttributeError"

text \<open>
  Lines 185 to 189, after the commit: with a session id, the thread's
  \<^verbatim>\<open>user_config\<close> (empty when there is none) gets the guest name under
  \<^verbatim>\<open>'customer_name'\<close> and is handed to \<^verbatim>\<open>memory.save\<close>.
\<close>

definition remember_guest :: "string option \<Rightarrow> string \<Rightarrow> memory \<Rightarrow> py_error + memory" where
  "remember_guest session guest mem =
     (if truthy session
      then (let sid = or_default session [];
                user_config = (case mem sid of Some (Some uc) \<Rightarrow> uc | _ \<Rightarrow> Map.empty)
            in memory_save mem sid (Some (user_config (''customer_name'' \<mapsto> guest))))
      else Inr mem)"

text \<open>The two lookups, each \<^verbatim>\<open>fetchone()\<close> of a query by key: the first matching row.\<close>

definition select_room_type :: "store \<Rightarrow> string \<Rightarrow> string option" where
  "select_room_type s rn =
     map_option room_type (find (\<lambda>r. room_number r = rn) (dh_rooms s))"

definition select_rate :: "store \<Rightarrow> string \<Rightarrow> rat option" where
  "select_rate s rt =
     map_option rate_per_night (find (\<lambda>t. rt_room_type t = rt) (dh_roomtypes s))"

text \<open>
  The \<^verbatim>\<open>INSERT\<close> names six columns; \<open>booking_source\<close> is not among them. The dates are
  written with \<^verbatim>\<open>strftime("%Y-%m-%d")\<close>, which drops the time of day.
\<close>

definition insert_booking ::
  "store \<Rightarrow> string \<Rightarrow> string \<Rightarrow> datetime \<Rightarrow> datetime \<Rightarrow> rat \<Rightarrow> datetime \<Rightarrow> store" where
  "insert_booking s guest rn check_in check_out amount now =
     s \<lparr> dh_bookings := dh_bookings s @
           [\<lparr> guest_name = guest, bk_room_number = rn,
              check_in_date = dt_date check_in, check_out_date = dt_date check_out,
              total_amount = amount, booking_date = now, booking_source = None \<rparr>] \<rparr>"

text \<open>
  The write to the session memory comes after \<^verbatim>\<open>conn.commit()\<close>. When it raises, the
  \<^verbatim>\<open>except\<close> branch rolls back nothing, the inserted row stays, and the answer is the
  error sentence.
\<close>

definition book_room ::
  "lexer \<Rightarrow> datetime \<Rightarrow> string option \<Rightarrow> string option \<Rightarrow> string option \<Rightarrow> string option
     \<Rightarrow> string option \<Rightarrow> store \<Rightarrow> memory \<Rightarrow> response \<times> store \<times> memory" where
  "book_room fields_of now guest_arg room_arg check_in_str check_out_str session s mem =
     (let guest_opt = effective_guest_name guest_arg session mem
      in if \<not> truthy guest_opt then (Missing_param ''guest_name'', s, mem)
      else if \<not> truthy room_arg then (Missing_param ''room_number'', s, mem)
      else if \<not> truthy check_in_str then (Missing_param ''check_in_date'', s, mem)
      else if \<not> truthy check_out_str then (Missing_param ''check_out_date'', s, mem)
      else
        (case (parse_date fields_of now (or_default check_in_str []),
               parse_date fields_of now (or_default check_out_str [])) of
           (Some check_in, Some check_out) \<Rightarrow>
             if date_lt (dt_date check_in) (dt_date now)
             then (Check_in_in_the_past check_in, s, mem)
             else if datetime_le check_out check_in
             then (Check_out_must_be_after_check_in, s, mem)
             else
               (let guest = or_default guest_opt [];
                    rn = or_default room_arg [];
                    nights = timedelta_days check_out check_in
                in case select_room_type s rn of
                     None \<Rightarrow> (No_room_found rn, s, mem)
                   | Some rt \<Rightarrow>
                       (case select_rate s rt of
                          None \<Rightarrow> (No_rate_found rt, s, mem)
                        | Some rate \<Rightarrow>
                            (let amount = rate * of_int nights;
                                 s' = insert_booking s guest rn check_in check_out amount now
                             in case remember_guest session guest mem of
                                  Inl e \<Rightarrow> (Error_booking_room rn e, s', mem)
                                | Inr mem' \<Rightarrow>
                                    (Room_booked rn guest check_in check_out amount, s', mem'))))
         | _ \<Rightarrow> (Invalid_date_format, s, mem)))"

subsection \<open>raise_guest_request and close_guest_request\<close>


text \<open>\<^verbatim>\<open>UPDATE ... SET status = 'closed' WHERE id = %s\<close>.\<close>

definition update_closed :: "int \<Rightarrow> ticket list \<Rightarrow> ticket list" where
  "update_closed i ts = map (\<lambda>t. if tk_id t = i then t \<lparr> tk_status := ''closed'' \<rparr> else t) ts"

definition close_guest_request :: "int option \<Rightarrow> store \<Rightarrow> response \<times> store" where
  "close_guest_request ticket_arg s =
     (if \<not> truthy_int ticket_arg then (Missing_param ''ticket_id'', s)
      else
        (let i = or_default ticket_arg 0
         in if find (\<lambda>t. tk_id t = i) (dh_tickets s) = None then (No_ticket_found i, s)
            else (Ticket_closed i, s \<lparr> dh_tickets := update_closed i (dh_tickets s) \<rparr>)))"

subsection \<open>get_occupancy_rate\<close>

text \<open>Python's \<^verbatim>\<open>/\<close> raises \<^verbatim>\<open>ZeroDivisionError\<close> on a zero divisor.\<close>

definition py_truediv :: "int \<Rightarrow> int \<Rightarrow> py_error + rat" where
  "py_truediv a b = (if b = 0 then Inl ZeroDivisionError else Inr (of_int a / of_int b))"

text \<open>The two counts: \<^verbatim>\<open>COUNT(*)\<close> of the rooms, and of the bookings with
  \<^verbatim>\<open>%s BETWEEN check_in_date AND check_out_date\<close>.\<close>

definition count_rooms :: "store \<Rightarrow> int" where
  "count_rooms s = int (length (dh_rooms s))"

definition count_bookings_on :: "store \<Rightarrow> date \<Rightarrow> int" where
  "count_bookings_on s d =
     int (length (filter (\<lambda>b. date_le (check_in_date b) d \<and> date_le d (check_out_date b))
                    (dh_bookings s)))"

text \<open>
  The rate is the exact quotient times 100; Python computes it in floating point and
  prints it with two decimals.
\<close>

definition get_occupancy_rate :: "lexer \<Rightarrow> datetime \<Rightarrow> string option \<Rightarrow> store \<Rightarrow> response" where
  "get_occupancy_rate fields_of now date_str s =
     (if \<not> truthy date_str then Missing_param ''date''
      else
        (case parse_date fields_of now (or_default date_str []) of
           None \<Rightarrow> Invalid_date_format
         | Some parsed_date \<Rightarrow>
             (let total_rooms = count_rooms s;
                  occupied_rooms = count_bookings_on s (dt_date parsed_date)
              in if total_rooms = 0 then No_rooms_registered
                 else (case py_truediv occupied_rooms total_rooms of
                         Inl e \<Rightarrow> Error_calculating_occupancy parsed_date e
                       | Inr q \<Rightarrow> Occupancy_rate parsed_date (q * 100)))))"

section \<open>The spec's reading of availability\<close>

text \<open>
  The spec's words, kept apart from the code's query: an existing booking conflicts with
  the range from \<open>check_in\<close> to \<open>check_out\<close> when
  \<^verbatim>\<open>existing.check_in < checkOut AND existing.check_out > checkIn\<close> (half-open intervals), and
  a room is available when no booking on it conflicts.
\<close>

definition spec_overlap :: "booking \<Rightarrow> date \<Rightarrow> date \<Rightarrow> bool" where
  "spec_overlap existing check_in check_out =
     (date_lt (check_in_date existing) check_out \<and> date_lt check_in (check_out_date existing))"

definition spec_find_available :: "store \<Rightarrow> date \<Rightarrow> date \<Rightarrow> (string \<times> string) list" where
  "spec_find_available s check_in check_out =
     map (\<lambda>r. (room_number r, room_type r))
       (filter (\<lambda>r. list_all (\<lambda>b. bk_room_number b \<noteq> room_number r
                                    \<or> \<not> spec_overlap b check_in check_out) (dh_bookings s))
          (dh_rooms s))"

section \<open>Example data\<close>

text \<open>
  The spec's scenario: rooms 101 (Standard) and 102 (Deluxe), rates 80 and 120, no
  booking, no ticket. The clock stands at 1 August 2025, 09:30.
\<close>

definition mk_date :: "int \<Rightarrow> int \<Rightarrow> int \<Rightarrow> date" where
  "mk_date y m d = \<lparr> year = y, month = m, day = d \<rparr>"

definition mk_datetime :: "int \<Rightarrow> int \<Rightarrow> int \<Rightarrow> int \<Rightarrow> int \<Rightarrow> datetime" where
  "mk_datetime y m d h mi =
     \<lparr> dt_date = mk_date y m d, hour = h, minute = mi, second = 0, microsecond = 0 \<rparr>"

definition clock :: datetime where
  "clock = mk_datetime 2025 8 1 9 30"

definition motel :: store where
  "motel =
     \<lparr> dh_rooms = [\<lparr> room_number = ''101'', room_type = ''Standard'', status = ''clean'' \<rparr>,
                   \<lparr> room_number = ''102'', room_type = ''Deluxe'', status = ''clean'' \<rparr>],
       dh_roomtypes = [\<lparr> rt_room_type = ''Standard'', rate_per_night = 80 \<rparr>,
                       \<lparr> rt_room_type = ''Deluxe'', rate_per_night = 120 \<rparr>],
       dh_bookings = [],
       dh_tickets = [],
       dh_tickets_id_seq = 1 \<rparr>"

text \<open>
  The fields \<^verbatim>\<open>dateutil\<close> reads from the strings of the examples: a full date names year,
  month and day; a time adds hour and minute; \<^verbatim>\<open>5 January\<close> names a month and a day only.
\<close>

definition ymd :: "int \<Rightarrow> int \<Rightarrow> int \<Rightarrow> timefields" where
  "ymd y m d =
     \<lparr> res_year = Some y, res_month = Some m, res_day = Some d, res_hour = None,
       res_minute = None, res_second = None, res_microsecond = None \<rparr>"

definition sample_fields :: lexer where
  "sample_fields =
     map_of
       [(''2025-08-16'', ymd 2025 8 16),
        (''2025-08-18'', ymd 2025 8 18),
        (''2025-08-19'', ymd 2025 8 19),
        (''2025-08-20'', ymd 2025 8 20),
        (''2025-08-21'', ymd 2025 8 21),
        (''2025-08-18 09:00'', (ymd 2025 8 18) \<lparr> res_hour := Some 9, res_minute := Some 0 \<rparr>),
        (''2025-08-18 17:00'', (ymd 2025 8 18) \<lparr> res_hour := Some 17, res_minute := Some 0 \<rparr>),
        (''5 January'',
           \<lparr> res_year = None, res_month = Some 1, res_day = Some 5, res_hour = None,
             res_minute = None, res_second = None, res_microsecond = None \<rparr>)]"

text \<open>A one-room inn, and the same motel with its rooms stored in the other order.\<close>

definition inn :: store where
  "inn = motel \<lparr> dh_rooms := [\<lparr> room_number = ''101'', room_type = ''Standard'', status = ''clean'' \<rparr>] \<rparr>"

definition motel_rev :: store where
  "motel_rev = motel \<lparr> dh_rooms := rev (dh_rooms motel) \<rparr>"

text \<open>
  Two stays in the inn's room, back to back: Ann from 16 to 18 August, then Bob from 18 to
  20 August, each booked through \<open>book_room\<close>.
\<close>

definition inn_after_ann :: store where
  "inn_after_ann =
     fst (snd (book_room sample_fields clock (Some ''Ann'') (Some ''101'')
                 (Some ''2025-08-16'') (Some ''2025-08-18'') None inn Map.empty))"

definition inn_after_bob :: store where
  "inn_after_bob =
     fst (snd (book_room sample_fields clock (Some ''Bob'') (Some ''101'')
                 (Some ''2025-08-18'') (Some ''2025-08-20'') None inn_after_ann Map.empty))"

text \<open>
  The session memory once the agent has run a turn on the thread \<^verbatim>\<open>t1\<close>: the thread has
  a checkpoint, with no \<^verbatim>\<open>user_config\<close>.
\<close>

definition agent_memory :: memory where
  "agent_memory = Map.empty (''t1'' \<mapsto> None)"

text \<open>A store with one open ticket, number 7.\<close>

definition motel_ticket :: store where
  "motel_ticket =
     motel \<lparr> dh_tickets :=
               [\<lparr> tk_id = 7, tk_room_number = ''101'', request_description = ''Extra towels'',
                  tk_status = ''open'', assigned_to_department = ''housekeeping'',
                  created_at = clock \<rparr>],
             dh_tickets_id_seq := 8 \<rparr>"

text \<open>
  The spec's booking scenario on the motel: Alice books room 101 from 18 to 20 August,
  then Bob asks for the same room from 19 to 21 August.
\<close>

definition motel_alice :: "response \<times> store \<times> memory" where
  "motel_alice =
     book_room sample_fields clock (Some ''Alice'') (Some ''101'')
       (Some ''2025-08-18'') (Some ''2025-08-20'') None motel Map.empty"

definition motel_alice_bob :: "response \<times> store \<times> memory" where
  "motel_alice_bob =
     book_room sample_fields clock (Some ''Bob'') (Some ''101'')
       (Some ''2025-08-19'') (Some ''2025-08-21'') None
       (fst (snd motel_alice)) (snd (snd motel_alice))"

text \<open>A stay given with times of day: in at 09:00 and out at 17:00 of the same day.\<close>

definition motel_day_use :: "response \<times> store \<times> memory" where
  "motel_day_use =
     book_room sample_fields clock (Some ''Alice'') (Some ''101'')
       (Some ''2025-08-18 09:00'') (Some ''2025-08-18 17:00'') None motel Map.empty"

text \<open>
  Two calls on the thread \<^verbatim>\<open>t1\<close>: Alice books room 101 from 18 to 20 August; the next
  call asks for room 102 and names no guest.
\<close>

definition thread_alice :: "response \<times> store \<times> memory" where
  "thread_alice =
     book_room sample_fields clock (Some ''Alice'') (Some ''101'')
       (Some ''2025-08-18'') (Some ''2025-08-20'') (Some ''t1'') motel agent_memory"

definition thread_next :: "response \<times> store \<times> memory" where
  "thread_next =
     book_room sample_fields clock None (Some ''102'')
       (Some ''2025-08-18'') (Some ''2025-08-20'') (Some ''t1'')
       (fst (snd thread_alice)) (snd (snd thread_alice))"

section \<open>Reading a response\<close>

text \<open>The rooms a response lists, and whether a response is the missing-parameter one.\<close>

definition returned_rooms :: "response \<Rightarrow> (string \<times> string) list" where
  "returned_rooms r = (case r of Available_rooms _ _ rooms \<Rightarrow> rooms | _ \<Rightarrow> [])"


section \<open>Evaluation rules\<close>

lemmas calendar_defs =
  is_leap_def days_in_month_def days_before_year_def days_before_month_def toordinal_def
  valid_date_def valid_datetime_def date_lt_def date_le_def time_lt_def datetime_lt_def
  datetime_le_def seconds_of_day_def timedelta_days_def

lemmas parse_defs =
  or_default_def build_naive_def midnight_def date_parser_parse_def replace_year_def
  parse_date_def

lemmas sample_defs =
  mk_date_def mk_datetime_def clock_def motel_def ymd_def sample_fields_def inn_def
  motel_rev_def agent_memory_def motel_ticket_def inn_after_ann_def inn_after_bob_def
  motel_alice_def motel_alice_bob_def motel_day_use_def thread_alice_def thread_next_def

lemmas booking_defs =
  truthy_def stored_guest_name_def effective_guest_name_def memory_save_def
  remember_guest_def
  select_room_type_def select_rate_def insert_booking_def book_room_def

lemmas availability_defs =
  booked_room_numbers_def select_available_def check_room_availability_def
  returned_rooms_def

lemmas occupancy_defs =
  py_truediv_def count_rooms_def count_bookings_on_def get_occupancy_rate_def

section \<open>Dates\<close>

text \<open>
  C8. The claim: a date string giving a bare month and day, with no year, resolves to
  the current year when that day is today or later, and to the following year otherwise.
  The code does not do that. On 1 August 2025 the string \<^verbatim>\<open>5 January\<close> parses to
  5 January 2025, a day before today, where the claim says 5 January 2026: the library
  fills the missing year with the current one, so the test \<^verbatim>\<open>parsed.year < current_year\<close>
  of \<open>parse_date\<close> is false and the year is never moved.
\<close>

theorem parse_date_bare_month_day_stays_in_current_year:
  "parse_date sample_fields clock ''5 January'' = Some (mk_datetime 2025 1 5 0 0)
   \<and> date_lt (mk_date 2025 1 5) (dt_date clock)
   \<and> parse_date sample_fields clock ''5 January'' \<noteq> Some (mk_datetime 2026 1 5 0 0)"
  by (simp add: parse_defs calendar_defs sample_defs Let_def)

section \<open>Occupancy\<close>

text \<open>
  C7. For every date, \<open>get_occupancy_rate\<close> on a store with no room answers that no
  rooms are registered; and on no store at all does it end in the error of a division
  by zero.
\<close>

theorem occupancy_no_rooms:
  assumes "date_str \<noteq> []"
    and "parse_date fields_of now date_str = Some d"
    and "dh_rooms s = []"
  shows "get_occupancy_rate fields_of now (Some date_str) s = No_rooms_registered
         \<and> (\<forall>s' t e. get_occupancy_rate fields_of now (Some date_str) s'
                        \<noteq> Error_calculating_occupancy t e)"
  using assms
  by (simp add: get_occupancy_rate_def truthy_def or_default_def count_rooms_def
        py_truediv_def Let_def)

theorem occupancy_no_rooms_witness:
  "''2025-08-18'' \<noteq> []
   \<and> parse_date sample_fields clock ''2025-08-18'' = Some (mk_datetime 2025 8 18 0 0)
   \<and> dh_rooms (motel \<lparr> dh_rooms := [] \<rparr>) = []
   \<and> get_occupancy_rate sample_fields clock (Some ''2025-08-18'') (motel \<lparr> dh_rooms := [] \<rparr>)
       = No_rooms_registered"
proof -
  have p: "parse_date sample_fields clock ''2025-08-18'' = Some (mk_datetime 2025 8 18 0 0)"
    by (simp add: parse_defs calendar_defs sample_defs Let_def)
  have r: "dh_rooms (motel \<lparr> dh_rooms := [] \<rparr>) = []"
    by simp
  have n: "''2025-08-18'' \<noteq> []"
    by simp
  from occupancy_no_rooms [OF n p r] p r n show ?thesis
    by blast
qed

text \<open>
  C6. The claim: the rate is the number of occupied rooms over the number of rooms, a
  room being occupied when the date lies in one of its bookings, both ends included.
  The code counts bookings, not rooms. In the one-room inn, after Ann's stay from 16 to
  18 August and Bob's from 18 to 20 August in the same room, the rate on 18 August is
  200 percent: two bookings hold the date, and one room exists.
\<close>

theorem occupancy_counts_bookings_not_rooms:
  "get_occupancy_rate sample_fields clock (Some ''2025-08-18'') inn_after_bob
     = Occupancy_rate (mk_datetime 2025 8 18 0 0) 200
   \<and> count_rooms inn_after_bob = 1
   \<and> map bk_room_number (dh_bookings inn_after_bob) = [''101'', ''101'']
   \<and> map check_in_date (dh_bookings inn_after_bob) = [mk_date 2025 8 16, mk_date 2025 8 18]
   \<and> map check_out_date (dh_bookings inn_after_bob) = [mk_date 2025 8 18, mk_date 2025 8 20]"
  by (simp add: occupancy_defs booking_defs parse_defs calendar_defs sample_defs Let_def)

section \<open>The guest name of a booking\<close>




text \<open>\<open>book_room\<close> never writes the session memory: the only write is the call that raises.\<close>

lemma remember_guest_result:
  "remember_guest session guest mem = (if truthy session then Inl AttributeError else Inr mem)"
  by (simp add: remember_guest_def memory_save_def Let_def)

lemma book_room_keeps_memory:
  "snd (snd (book_room fields_of now guest room ci co session s mem)) = mem"
  by (simp add: book_room_def remember_guest_result Let_def split: option.splits)


section \<open>Tickets\<close>

lemma update_closed_Nil: "update_closed i [] = []"
  by (simp add: update_closed_def)

lemma update_closed_Cons:
  "update_closed i (a # ts)
     = (if tk_id a = i then a \<lparr> tk_status := ''closed'' \<rparr> else a) # update_closed i ts"
  by (simp add: update_closed_def)

lemma update_closed_ids: "map tk_id (update_closed i ts) = map tk_id ts"
  by (induction ts) (simp_all add: update_closed_Nil update_closed_Cons)

lemma update_closed_others:
  "filter (\<lambda>t. tk_id t \<noteq> i) (update_closed i ts) = filter (\<lambda>t. tk_id t \<noteq> i) ts"
  by (induction ts) (simp_all add: update_closed_Nil update_closed_Cons)

lemma update_closed_status:
  "t \<in> set (update_closed i ts) \<Longrightarrow> tk_id t = i \<Longrightarrow> tk_status t = ''closed''"
proof (induction ts)
  case Nil
  then show ?case by (simp add: update_closed_Nil)
next
  case (Cons a ts)
  show ?case
  proof (cases "t \<in> set (update_closed i ts)")
    case True
    then show ?thesis using Cons by blast
  next
    case False
    with Cons.prems(1) have t: "t = (if tk_id a = i then a \<lparr> tk_status := ''closed'' \<rparr> else a)"
      by (simp add: update_closed_Cons)
    show ?thesis
    proof (cases "tk_id a = i")
      case True
      with t have "t = a \<lparr> tk_status := ''closed'' \<rparr>" by simp
      then show ?thesis by simp
    next
      case False
      with t have "t = a" by simp
      with False Cons.prems(2) show ?thesis by simp
    qed
  qed
qed

lemma update_closed_keeps_id:
  assumes "i \<in> tk_id ` set ts"
  shows "i \<in> tk_id ` set (update_closed i ts)"
proof -
  from assms have "i \<in> set (map tk_id ts)"
    by simp
  then have "i \<in> set (map tk_id (update_closed i ts))"
    by (simp only: update_closed_ids)
  then show ?thesis
    by simp
qed

lemma find_ticket_None: "find (\<lambda>t. tk_id t = i) ts = None \<longleftrightarrow> i \<notin> tk_id ` set ts"
  by (auto simp: find_None_iff)

lemma close_absent:
  "i \<noteq> 0 \<Longrightarrow> i \<notin> tk_id ` set (dh_tickets s)
     \<Longrightarrow> close_guest_request (Some i) s = (No_ticket_found i, s)"
  by (simp add: close_guest_request_def truthy_int_def or_default_def find_ticket_None Let_def)

lemma close_present:
  "i \<noteq> 0 \<Longrightarrow> i \<in> tk_id ` set (dh_tickets s)
     \<Longrightarrow> close_guest_request (Some i) s
           = (Ticket_closed i, s \<lparr> dh_tickets := update_closed i (dh_tickets s) \<rparr>)"
  by (simp add: close_guest_request_def truthy_int_def or_default_def find_ticket_None Let_def)

text \<open>
  C5, as the claim states it, fails at the ticket id 0: the store below has no ticket 0,
  and closing ticket 0 answers that the parameter is missing, not that the ticket was
  not found.
\<close>

theorem close_ticket_zero_counterexample:
  "map tk_id (dh_tickets motel_ticket) = [7]
   \<and> close_guest_request (Some 0) motel_ticket = (Missing_param ''ticket_id'', motel_ticket)
   \<and> fst (close_guest_request (Some 0) motel_ticket) \<noteq> No_ticket_found 0"
  by (simp add: close_guest_request_def truthy_int_def sample_defs)

text \<open>
  C5, amended. With no ticket id, or with the ticket id 0, the answer is that the
  parameter is missing and the store is unchanged. For a ticket id other than 0: when no
  ticket has the id, the answer is that no ticket was found and the store is unchanged;
  when a ticket has it, the answer is the confirmation and the store changes in its
  tickets only: they keep their ids and their order, every ticket of that id has the
  status closed whatever it was before, the other tickets are unchanged, and closing
  the same ticket once more is confirmed again.
\<close>

theorem close_guest_request_by_ticket_id:
  "close_guest_request None s = (Missing_param ''ticket_id'', s)
   \<and> close_guest_request (Some 0) s = (Missing_param ''ticket_id'', s)
   \<and> (i \<noteq> 0 \<and> i \<notin> tk_id ` set (dh_tickets s)
        \<longrightarrow> close_guest_request (Some i) s = (No_ticket_found i, s))
   \<and> (i \<noteq> 0 \<and> i \<in> tk_id ` set (dh_tickets s)
        \<longrightarrow> close_guest_request (Some i) s
              = (Ticket_closed i, s \<lparr> dh_tickets := update_closed i (dh_tickets s) \<rparr>)
          \<and> map tk_id (update_closed i (dh_tickets s)) = map tk_id (dh_tickets s)
          \<and> (\<forall>t \<in> set (update_closed i (dh_tickets s)).
                tk_id t = i \<longrightarrow> tk_status t = ''closed'')
          \<and> filter (\<lambda>t. tk_id t \<noteq> i) (update_closed i (dh_tickets s))
              = filter (\<lambda>t. tk_id t \<noteq> i) (dh_tickets s)
          \<and> fst (close_guest_request (Some i) (snd (close_guest_request (Some i) s)))
              = Ticket_closed i)"
proof (intro conjI impI)
  show "close_guest_request None s = (Missing_param ''ticket_id'', s)"
    by (simp add: close_guest_request_def truthy_int_def)
  show "close_guest_request (Some 0) s = (Missing_param ''ticket_id'', s)"
    by (simp add: close_guest_request_def truthy_int_def)
next
  assume "i \<noteq> 0 \<and> i \<notin> tk_id ` set (dh_tickets s)"
  then show "close_guest_request (Some i) s = (No_ticket_found i, s)"
    by (simp add: close_absent)
next
  assume a: "i \<noteq> 0 \<and> i \<in> tk_id ` set (dh_tickets s)"
  then have nz: "i \<noteq> 0" and p: "i \<in> tk_id ` set (dh_tickets s)"
    by simp_all
  note c = close_present [OF nz p]
  show "close_guest_request (Some i) s
          = (Ticket_closed i, s \<lparr> dh_tickets := update_closed i (dh_tickets s) \<rparr>)"
    by (rule c)
  show "map tk_id (update_closed i (dh_tickets s)) = map tk_id (dh_tickets s)"
    by (rule update_closed_ids)
  show "\<forall>t \<in> set (update_closed i (dh_tickets s)). tk_id t = i \<longrightarrow> tk_status t = ''closed''"
    using update_closed_status [of _ i "dh_tickets s"] by blast
  show "filter (\<lambda>t. tk_id t \<noteq> i) (update_closed i (dh_tickets s))
          = filter (\<lambda>t. tk_id t \<noteq> i) (dh_tickets s)"
    by (rule update_closed_others)
  have "i \<in> tk_id ` set (dh_tickets (s \<lparr> dh_tickets := update_closed i (dh_tickets s) \<rparr>))"
    using update_closed_keeps_id [OF p] by simp
  from close_present [OF nz this]
  show "fst (close_guest_request (Some i) (snd (close_guest_request (Some i) s))) = Ticket_closed i"
    by (simp add: c)
qed

theorem close_guest_request_by_ticket_id_witness:
  "(7::int) \<noteq> 0 \<and> 7 \<in> tk_id ` set (dh_tickets motel_ticket)
   \<and> fst (close_guest_request (Some 7) motel_ticket) = Ticket_closed 7
   \<and> map tk_status (dh_tickets (snd (close_guest_request (Some 7) motel_ticket))) = [''closed'']
   \<and> fst (close_guest_request (Some 7) (snd (close_guest_request (Some 7) motel_ticket)))
       = Ticket_closed 7
   \<and> (8::int) \<noteq> 0 \<and> 8 \<notin> tk_id ` set (dh_tickets motel_ticket)
   \<and> close_guest_request (Some 8) motel_ticket = (No_ticket_found 8, motel_ticket)
   \<and> close_guest_request None motel_ticket = (Missing_param ''ticket_id'', motel_ticket)"
proof -
  have seven: "(7::int) \<noteq> 0 \<and> 7 \<in> tk_id ` set (dh_tickets motel_ticket)"
    by (simp add: motel_ticket_def)
  have eight: "(8::int) \<noteq> 0 \<and> 8 \<notin> tk_id ` set (dh_tickets motel_ticket)"
    by (simp add: motel_ticket_def)
  note t7 = close_guest_request_by_ticket_id [of motel_ticket 7]
  note t8 = close_guest_request_by_ticket_id [of motel_ticket 8]
  from t7 seven
  have c: "close_guest_request (Some 7) motel_ticket
             = (Ticket_closed 7,
                motel_ticket \<lparr> dh_tickets := update_closed 7 (dh_tickets motel_ticket) \<rparr>)"
    and again: "fst (close_guest_request (Some 7) (snd (close_guest_request (Some 7) motel_ticket)))
       = Ticket_closed 7"
    by blast+
  have st: "map tk_status (dh_tickets (snd (close_guest_request (Some 7) motel_ticket)))
              = [''closed'']"
  proof -
    have "dh_tickets (snd (close_guest_request (Some 7) motel_ticket))
            = update_closed 7 (dh_tickets motel_ticket)"
      by (simp add: c)
    then show ?thesis
      by (simp add: update_closed_def motel_ticket_def)
  qed
  have r: "fst (close_guest_request (Some 7) motel_ticket) = Ticket_closed 7"
    by (simp add: c)
  from t8 eight
  have a: "close_guest_request (Some 8) motel_ticket = (No_ticket_found 8, motel_ticket)"
    and m: "close_guest_request None motel_ticket = (Missing_param ''ticket_id'', motel_ticket)"
    by blast+
  from seven eight r st again a m show ?thesis
    by blast
qed

section \<open>Availability\<close>

lemma map_fst_select_available:
  "map fst (select_available s co ci)
     = filter (\<lambda>n. n \<notin> set (booked_room_numbers s co ci)) (map room_number (dh_rooms s))"
  by (simp add: select_available_def filter_map comp_def)

lemma returned_rooms_cases:
  "returned_rooms (check_room_availability fields_of now ci co s) = []
   \<or> (\<exists>a b. returned_rooms (check_room_availability fields_of now ci co s)
               = select_available s a b)"
  by (auto simp: check_room_availability_def returned_rooms_def Let_def split: option.splits)

lemma returned_rooms_valid:
  assumes "ci_str \<noteq> []" and "co_str \<noteq> []"
    and "parse_date fields_of now ci_str = Some check_in"
    and "parse_date fields_of now co_str = Some check_out"
    and "\<not> date_lt (dt_date check_in) (dt_date now)"
    and "\<not> datetime_le check_out check_in"
  shows "returned_rooms (check_room_availability fields_of now (Some ci_str) (Some co_str) s)
           = select_available s (dt_date check_out) (dt_date check_in)"
  using assms
  by (simp add: check_room_availability_def returned_rooms_def truthy_def or_default_def Let_def)

text \<open>Facts about the example strings, shared by the examples below.\<close>

lemma parse_aug_18:
  "parse_date sample_fields clock ''2025-08-18'' = Some (mk_datetime 2025 8 18 0 0)"
  by (simp add: parse_defs calendar_defs sample_defs Let_def)


lemma parse_aug_20:
  "parse_date sample_fields clock ''2025-08-20'' = Some (mk_datetime 2025 8 20 0 0)"
  by (simp add: parse_defs calendar_defs sample_defs Let_def)


lemma aug_18_not_past: "\<not> date_lt (dt_date (mk_datetime 2025 8 18 0 0)) (dt_date clock)"
  by (simp add: calendar_defs sample_defs)


lemma aug_20_after_18: "\<not> datetime_le (mk_datetime 2025 8 20 0 0) (mk_datetime 2025 8 18 0 0)"
  by (simp add: calendar_defs sample_defs)


text \<open>
  C2, as the claim states it, fails on a day of departure. The inn's only room has one
  booking, Ann's, which checks out on 18 August. By the spec's half-open test the room is
  free for a stay from 18 to 20 August; the code's query answers that no room is
  available.
\<close>

theorem availability_departure_day_counterexample:
  "map bk_room_number (dh_bookings inn_after_ann) = [''101'']
   \<and> map check_out_date (dh_bookings inn_after_ann) = [mk_date 2025 8 18]
   \<and> spec_find_available inn_after_ann (mk_date 2025 8 18) (mk_date 2025 8 20)
       = [(''101'', ''Standard'')]
   \<and> check_room_availability sample_fields clock (Some ''2025-08-18'') (Some ''2025-08-20'')
         inn_after_ann
       = No_rooms_available (mk_datetime 2025 8 18 0 0) (mk_datetime 2025 8 20 0 0)"
  by (simp add: availability_defs booking_defs parse_defs calendar_defs sample_defs
        spec_overlap_def spec_find_available_def Let_def)

text \<open>
  C2, amended: for every valid date range and every store, the rooms returned are
  exactly the rooms with no booking such that
  \<^verbatim>\<open>existing.check_in <= checkOut AND existing.check_out >= checkIn\<close>: the intervals are
  closed, so a booking that checks out on day D does conflict with a stay checking in on
  day D.
\<close>

theorem check_room_availability_closed_intervals:
  assumes "ci_str \<noteq> []" and "co_str \<noteq> []"
    and "parse_date fields_of now ci_str = Some check_in"
    and "parse_date fields_of now co_str = Some check_out"
    and "\<not> date_lt (dt_date check_in) (dt_date now)"
    and "\<not> datetime_le check_out check_in"
  shows "(rn, rt) \<in> set (returned_rooms
            (check_room_availability fields_of now (Some ci_str) (Some co_str) s))
         \<longleftrightarrow> (\<exists>r \<in> set (dh_rooms s). room_number r = rn \<and> room_type r = rt \<and>
                (\<forall>b \<in> set (dh_bookings s). bk_room_number b = rn \<longrightarrow>
                   \<not> (date_le (check_in_date b) (dt_date check_out)
                       \<and> date_le (dt_date check_in) (check_out_date b))))"
proof -
  let ?co = "dt_date check_out" and ?ci = "dt_date check_in"
  have booked: "n \<in> set (booked_room_numbers s ?co ?ci)
      \<longleftrightarrow> (\<exists>b \<in> set (dh_bookings s). bk_room_number b = n
             \<and> date_le (check_in_date b) ?co \<and> date_le ?ci (check_out_date b))" for n
    by (auto simp: booked_room_numbers_def)
  have "(rn, rt) \<in> set (select_available s ?co ?ci)
      \<longleftrightarrow> (\<exists>r \<in> set (dh_rooms s). room_number r = rn \<and> room_type r = rt
             \<and> rn \<notin> set (booked_room_numbers s ?co ?ci))"
    by (auto simp: select_available_def)
  also have "\<dots> \<longleftrightarrow> (\<exists>r \<in> set (dh_rooms s). room_number r = rn \<and> room_type r = rt \<and>
                (\<forall>b \<in> set (dh_bookings s). bk_room_number b = rn \<longrightarrow>
                   \<not> (date_le (check_in_date b) ?co \<and> date_le ?ci (check_out_date b))))"
    unfolding booked by blast
  finally show ?thesis
    by (simp only: returned_rooms_valid [OF assms])
qed

theorem check_room_availability_closed_intervals_witness:
  "''2025-08-18'' \<noteq> [] \<and> ''2025-08-20'' \<noteq> []
   \<and> parse_date sample_fields clock ''2025-08-18'' = Some (mk_datetime 2025 8 18 0 0)
   \<and> parse_date sample_fields clock ''2025-08-20'' = Some (mk_datetime 2025 8 20 0 0)
   \<and> \<not> date_lt (dt_date (mk_datetime 2025 8 18 0 0)) (dt_date clock)
   \<and> \<not> datetime_le (mk_datetime 2025 8 20 0 0) (mk_datetime 2025 8 18 0 0)
   \<and> (''101'', ''Standard'') \<notin> set (returned_rooms
          (check_room_availability sample_fields clock (Some ''2025-08-18'')
             (Some ''2025-08-20'') inn_after_ann))"
proof -
  have n1: "''2025-08-18'' \<noteq> []" and n2: "''2025-08-20'' \<noteq> []"
    by simp_all
  note iff = check_room_availability_closed_intervals
               [OF n1 n2 parse_aug_18 parse_aug_20 aug_18_not_past aug_20_after_18,
                of "''101''" "''Standard''" inn_after_ann]
  have "\<not> (\<exists>r \<in> set (dh_rooms inn_after_ann).
            room_number r = ''101'' \<and> room_type r = ''Standard'' \<and>
            (\<forall>b \<in> set (dh_bookings inn_after_ann). bk_room_number b = ''101'' \<longrightarrow>
               \<not> (date_le (check_in_date b) (dt_date (mk_datetime 2025 8 20 0 0))
                   \<and> date_le (dt_date (mk_datetime 2025 8 18 0 0)) (check_out_date b))))"
    by (simp add: booking_defs parse_defs calendar_defs sample_defs Let_def)
  with iff have "(''101'', ''Standard'') \<notin> set (returned_rooms
          (check_room_availability sample_fields clock (Some ''2025-08-18'')
             (Some ''2025-08-20'') inn_after_ann))"
    by blast
  with n1 n2 parse_aug_18 parse_aug_20 aug_18_not_past aug_20_after_18 show ?thesis
    by blast
qed

text \<open>
  C3, as the claim states it, fails when the store yields the rooms in another order:
  with room 102 stored before room 101, the answer lists 102 first.
\<close>

theorem availability_unsorted_counterexample:
  "check_room_availability sample_fields clock (Some ''2025-08-18'') (Some ''2025-08-20'')
       motel_rev
     = Available_rooms (mk_datetime 2025 8 18 0 0) (mk_datetime 2025 8 20 0 0)
         [(''102'', ''Deluxe''), (''101'', ''Standard'')]
   \<and> \<not> sorted (map fst (returned_rooms
           (check_room_availability sample_fields clock (Some ''2025-08-18'')
              (Some ''2025-08-20'') motel_rev)))"
  by (simp add: availability_defs truthy_def parse_defs calendar_defs sample_defs Let_def)

text \<open>
  C3, amended: the query has no \<^verbatim>\<open>ORDER BY\<close>. The room numbers returned are a
  subsequence of the room numbers in the order the store yields the rooms, so the answer
  is sorted ascending by room number whenever the store yields the rooms in that order;
  it is a function of the store and the arguments.
\<close>

theorem check_room_availability_row_order:
  "subseq (map fst (returned_rooms (check_room_availability fields_of now ci co s)))
          (map room_number (dh_rooms s))
   \<and> (sorted (map room_number (dh_rooms s))
        \<longrightarrow> sorted (map fst (returned_rooms (check_room_availability fields_of now ci co s))))"
  using returned_rooms_cases [of fields_of now ci co s]
  by (auto simp: map_fst_select_available sorted_wrt_filter)

theorem check_room_availability_row_order_witness:
  "sorted (map room_number (dh_rooms motel))
   \<and> returned_rooms (check_room_availability sample_fields clock (Some ''2025-08-18'')
         (Some ''2025-08-20'') motel)
       = [(''101'', ''Standard''), (''102'', ''Deluxe'')]
   \<and> sorted (map fst (returned_rooms (check_room_availability sample_fields clock
         (Some ''2025-08-18'') (Some ''2025-08-20'') motel)))"
proof -
  have st: "sorted (map room_number (dh_rooms motel))"
    by (simp add: motel_def)
  have rr: "returned_rooms (check_room_availability sample_fields clock (Some ''2025-08-18'')
         (Some ''2025-08-20'') motel)
       = [(''101'', ''Standard''), (''102'', ''Deluxe'')]"
    by (simp add: availability_defs truthy_def parse_defs calendar_defs sample_defs Let_def)
  from check_room_availability_row_order
         [of sample_fields clock "Some ''2025-08-18''" "Some ''2025-08-20''" motel] st
  have "sorted (map fst (returned_rooms (check_room_availability sample_fields clock
         (Some ''2025-08-18'') (Some ''2025-08-20'') motel)))"
    by blast
  with st rr show ?thesis
    by blast
qed

section \<open>Booking\<close>




text \<open>
  C4. The claim: the recorded amount is the rate times the nights, and the nights are
  at least 1, a stay of no night being rejected before pricing. The guard
  \<^verbatim>\<open>check_out <= check_in\<close> compares datetimes, so a stay given with times of day, in at
  09:00 and out at 17:00 of 18 August, passes it: \<^verbatim>\<open>(check_out - check_in).days\<close> is 0, the
  booking is confirmed for the amount 0, and the row's two dates are the same day.
\<close>

theorem book_room_zero_nights:
  "timedelta_days (mk_datetime 2025 8 18 17 0) (mk_datetime 2025 8 18 9 0) = 0
   \<and> fst motel_day_use
       = Room_booked ''101'' ''Alice'' (mk_datetime 2025 8 18 9 0) (mk_datetime 2025 8 18 17 0) 0
   \<and> map total_amount (dh_bookings (fst (snd motel_day_use))) = [0]
   \<and> map check_in_date (dh_bookings (fst (snd motel_day_use))) = [mk_date 2025 8 18]
   \<and> map check_out_date (dh_bookings (fst (snd motel_day_use))) = [mk_date 2025 8 18]"
  by (simp add: booking_defs parse_defs calendar_defs sample_defs Let_def)

section \<open>Falsy parameters\<close>



end
